theory Spec2Isabelle
  imports Complex_Main "HOL-Library.AList" "HOL-Library.Multiset"
begin

section \<open>Data model (shared/schema.ts)\<close>

text \<open>
  A \<open>Date\<close> is its time value \<open>getTime()\<close>, an integral number of milliseconds since the
  epoch. Columns that are nullable, or optional on insert, are \<open>option\<close>s: \<open>None\<close> stands for
  \<open>null\<close>, \<open>undefined\<close> and an absent key alike, which the storage layer never tells apart.
  The timestamps that \<open>MemStorage\<close> always fills in itself are plain values.
\<close>

type_synonym timestamp = int

record Project =
  p_id :: string
  p_name :: string
  p_description :: "string option"
  p_location :: "string option"
  p_status :: "string option"
  p_type :: string
  p_createdAt :: timestamp
  p_updatedAt :: timestamp

record InsertProject =
  ip_name :: string
  ip_description :: "string option"
  ip_location :: "string option"
  ip_status :: "string option"
  ip_type :: string

text \<open>
  \<open>Partial<InsertProject>\<close>: every key may be absent (\<open>None\<close>); a present key carries a value of
  the column's type, as \<open>insertProjectSchema.partial().parse\<close> produces it.
\<close>

record PartialInsertProject =
  u_name :: "string option"
  u_description :: "string option option"
  u_location :: "string option option"
  u_status :: "string option"
  u_type :: "string option"

record Photo =
  ph_id :: string
  ph_projectId :: string
  ph_filename :: string
  ph_description :: "string option"
  ph_latitude :: "real option"
  ph_longitude :: "real option"
  ph_takenAt :: timestamp
  ph_createdAt :: timestamp

record InsertPhoto =
  iph_projectId :: string
  iph_filename :: string
  iph_description :: "string option"
  iph_latitude :: "real option"
  iph_longitude :: "real option"
  iph_takenAt :: "timestamp option"

record Document =
  d_id :: string
  d_projectId :: string
  d_filename :: string
  d_originalName :: string
  d_type :: string
  d_size :: int
  d_uploadedAt :: timestamp

record InsertDocument =
  id_projectId :: string
  id_filename :: string
  id_originalName :: string
  id_type :: string
  id_size :: int

record MaterialTest =
  mt_id :: string
  mt_name :: string
  mt_category :: string
  mt_specification :: string
  mt_createdAt :: timestamp
  mt_updatedAt :: timestamp

record InsertMaterialTest =
  imt_name :: string
  imt_category :: string
  imt_specification :: string

record TestResult =
  tr_id :: string
  tr_projectId :: string
  tr_materialTestId :: string
  tr_result :: string
  tr_status :: string
  tr_testedAt :: timestamp

record InsertTestResult =
  itr_projectId :: string
  itr_materialTestId :: string
  itr_result :: string
  itr_status :: string

record Reminder =
  r_id :: string
  r_projectId :: string
  r_title :: string
  r_type :: string
  r_scheduledFor :: timestamp
  r_completed :: "bool option"
  r_createdAt :: timestamp

record InsertReminder =
  ir_projectId :: string
  ir_title :: string
  ir_type :: string
  ir_scheduledFor :: timestamp
  ir_completed :: "bool option"

record CalendarEvent =
  ce_id :: string
  ce_projectId :: string
  ce_title :: string
  ce_description :: "string option"
  ce_date :: timestamp
  ce_type :: string
  ce_createdAt :: timestamp

record InsertCalendarEvent =
  ice_projectId :: string
  ice_title :: string
  ice_description :: "string option"
  ice_date :: timestamp
  ice_type :: string

text \<open>The API response types: an entity extended with its derived fields.\<close>

record ProjectWithCounts = Project +
  photoCount :: nat
  documentCount :: nat
  nextInspection :: "string option"

record TestResultView = TestResult +
  trv_projectName :: string
  trv_testName :: string

record ReminderView = Reminder +
  rv_projectName :: string

record CalendarEventView = CalendarEvent +
  cev_projectName :: string

record ProjectStats =
  activeProjects :: nat
  photosCount :: nat
  pendingInspections :: nat
  documentsCount :: nat

section \<open>The JavaScript \<open>Map\<close> and other primitives\<close>

text \<open>
  A JavaScript \<open>Map\<close> with string keys keeps its entries in insertion order: \<open>set\<close> on a key
  already present replaces the value in place, on a new key it appends; \<open>values()\<close> yields
  the values in that order; \<open>delete\<close> reports whether the key was there.

  \<open>Array.prototype.sort\<close> is stable. With the comparator \<open>(a, b) => a.t - b.t\<close> it is
  \<open>sort_key\<close> on \<open>t\<close> (a stable insertion sort), with \<open>(a, b) => b.t - a.t\<close> it is \<open>sort_key\<close>
  on the negated \<open>t\<close>.
\<close>

type_synonym 'v jsmap = "(string \<times> 'v) list"

definition Map_get :: "'v jsmap \<Rightarrow> string \<Rightarrow> 'v option" where
  "Map_get m k = map_of m k"

definition Map_has :: "'v jsmap \<Rightarrow> string \<Rightarrow> bool" where
  "Map_has m k = (map_of m k \<noteq> None)"

definition Map_set :: "'v jsmap \<Rightarrow> string \<Rightarrow> 'v \<Rightarrow> 'v jsmap" where
  "Map_set m k v = AList.update k v m"

definition Map_delete :: "'v jsmap \<Rightarrow> string \<Rightarrow> bool \<times> 'v jsmap" where
  "Map_delete m k = (Map_has m k, AList.delete k m)"

definition Map_values :: "'v jsmap \<Rightarrow> 'v list" where
  "Map_values m = map snd m"

text \<open>\<open>!x\<close> on a nullable boolean: only \<open>true\<close> is truthy.\<close>

definition truthy :: "bool option \<Rightarrow> bool" where
  "truthy b = (b = Some True)"

text \<open>
  \<open>x?.name || fallback\<close>: the fallback is taken when the object is missing and also when the
  name is the empty string, which is falsy.
\<close>

definition name_or :: "string option \<Rightarrow> string \<Rightarrow> string" where
  "name_or n fallback = (case n of None \<Rightarrow> fallback | Some v \<Rightarrow> if v = [] then fallback else v)"

text \<open>Object spread of an optional key over an existing field.\<close>

definition spread :: "'a \<Rightarrow> 'a option \<Rightarrow> 'a" where
  "spread old u = (case u of None \<Rightarrow> old | Some v \<Rightarrow> v)"

text \<open>Decimal rendering of an integer, as a template literal prints a whole number.\<close>

definition digit :: "nat \<Rightarrow> char" where
  "digit d = ''0123456789'' ! d"

fun string_of_nat :: "nat \<Rightarrow> string" where
  "string_of_nat n =
     (if n < 10 then [digit n] else string_of_nat (n div 10) @ [digit (n mod 10)])"

definition string_of_int :: "int \<Rightarrow> string" where
  "string_of_int i = (if i < 0 then CHR ''-'' # string_of_nat (nat (- i)) else string_of_nat (nat i))"

section \<open>MemStorage (server/storage.ts)\<close>

record MemStorage =
  projects :: "Project jsmap"
  photos :: "Photo jsmap"
  documents :: "Document jsmap"
  materialTests :: "MaterialTest jsmap"
  testResults :: "TestResult jsmap"
  reminders :: "Reminder jsmap"
  calendarEvents :: "CalendarEvent jsmap"

text \<open>
  Every method runs to completion without an \<open>await\<close>, so it is a function from the store to
  a result and the next store. \<open>randomUUID()\<close> and each \<open>new Date()\<close> are arguments, in the
  order the method reads them.
\<close>

subsection \<open>Projects\<close>

definition getProject :: "MemStorage \<Rightarrow> string \<Rightarrow> Project option" where
  "getProject s i = Map_get (projects s) i"

definition createProject ::
  "string \<Rightarrow> timestamp \<Rightarrow> timestamp \<Rightarrow> InsertProject \<Rightarrow> MemStorage \<Rightarrow> Project \<times> MemStorage" where
  "createProject uuid t1 t2 project s =
     (let newProject = \<lparr> p_id = uuid, p_name = ip_name project,
            p_description = ip_description project, p_location = ip_location project,
            p_status = ip_status project, p_type = ip_type project,
            p_createdAt = t1, p_updatedAt = t2 \<rparr>
      in (newProject, s\<lparr>projects := Map_set (projects s) uuid newProject\<rparr>))"

definition updateProject ::
  "string \<Rightarrow> PartialInsertProject \<Rightarrow> timestamp \<Rightarrow> MemStorage \<Rightarrow> Project option \<times> MemStorage" where
  "updateProject i updates now s =
     (case Map_get (projects s) i of
        None \<Rightarrow> (None, s)
      | Some project \<Rightarrow>
          (let updatedProject = project\<lparr>
                 p_name := spread (p_name project) (u_name updates),
                 p_description := spread (p_description project) (u_description updates),
                 p_location := spread (p_location project) (u_location updates),
                 p_status := (case u_status updates of None \<Rightarrow> p_status project | Some v \<Rightarrow> Some v),
                 p_type := spread (p_type project) (u_type updates),
                 p_updatedAt := now \<rparr>
           in (Some updatedProject, s\<lparr>projects := Map_set (projects s) i updatedProject\<rparr>)))"

definition deleteProject :: "string \<Rightarrow> MemStorage \<Rightarrow> bool \<times> MemStorage" where
  "deleteProject i s =
     (let (existed, m) = Map_delete (projects s) i in (existed, s\<lparr>projects := m\<rparr>))"

text \<open>
  \<open>getNextInspection\<close>: the pending reminders of the project, stably sorted by
  \<open>scheduledFor\<close>; the label comes from the first one. \<open>diffDays\<close> is the source's constant
  of that name. \<open>Math.ceil\<close> may return \<open>-0\<close>, which \<open>===\<close> identifies with \<open>0\<close>, so the
  whole-number comparisons are the source's. The source divides doubles; for two times less
  than \<open>2^27\<close> days apart the rounded quotient has the same ceiling as the exact one taken
  here.
\<close>

definition diffDays :: "timestamp \<Rightarrow> timestamp \<Rightarrow> int" where
  "diffDays next now = \<lceil>real_of_int (next - now) / (1000 * 60 * 60 * 24)\<rceil>"

definition getNextInspection :: "MemStorage \<Rightarrow> string \<Rightarrow> timestamp \<Rightarrow> string option" where
  "getNextInspection s projectId now =
     (let projectReminders =
            sort_key r_scheduledFor
              (filter (\<lambda>r. r_projectId r = projectId \<and> \<not> truthy (r_completed r))
                 (Map_values (reminders s)))
      in case projectReminders of
           [] \<Rightarrow> None
         | r # _ \<Rightarrow>
             (let next = r_scheduledFor r
              in if diffDays next now = 0 then Some ''Today''
                 else if diffDays next now = 1 then Some ''Tomorrow''
                 else if 1 < diffDays next now
                   then Some (string_of_int (diffDays next now) @ '' days'')
                 else Some ''Overdue''))"

text \<open>
  \<open>getProjects\<close>: \<open>getNextInspection\<close> reads the clock once per project; \<open>clock k\<close> is the
  reading taken for the project at position \<open>k\<close>.
\<close>

definition getProjects :: "(nat \<Rightarrow> timestamp) \<Rightarrow> MemStorage \<Rightarrow> ProjectWithCounts list" where
  "getProjects clock s =
     map (\<lambda>(k, project).
            Project.extend project
              (ProjectWithCounts.fields
                 (length (filter (\<lambda>p. ph_projectId p = p_id project) (Map_values (photos s))))
                 (length (filter (\<lambda>d. d_projectId d = p_id project) (Map_values (documents s))))
                 (getNextInspection s (p_id project) (clock k))))
         (enumerate 0 (Map_values (projects s)))"

subsection \<open>Photos\<close>

definition getProjectPhotos :: "MemStorage \<Rightarrow> string \<Rightarrow> Photo list" where
  "getProjectPhotos s projectId =
     sort_key (\<lambda>photo. - ph_takenAt photo)
       (filter (\<lambda>photo. ph_projectId photo = projectId) (Map_values (photos s)))"

text \<open>The first clock reading \<open>t1\<close> is only taken when the input carries no \<open>takenAt\<close>.\<close>

definition createPhoto ::
  "string \<Rightarrow> timestamp \<Rightarrow> timestamp \<Rightarrow> InsertPhoto \<Rightarrow> MemStorage \<Rightarrow> Photo \<times> MemStorage" where
  "createPhoto uuid t1 t2 photo s =
     (let newPhoto = \<lparr> ph_id = uuid, ph_projectId = iph_projectId photo,
            ph_filename = iph_filename photo, ph_description = iph_description photo,
            ph_latitude = iph_latitude photo, ph_longitude = iph_longitude photo,
            ph_takenAt = (case iph_takenAt photo of Some t \<Rightarrow> t | None \<Rightarrow> t1),
            ph_createdAt = t2 \<rparr>
      in (newPhoto, s\<lparr>photos := Map_set (photos s) uuid newPhoto\<rparr>))"

definition deletePhoto :: "string \<Rightarrow> MemStorage \<Rightarrow> bool \<times> MemStorage" where
  "deletePhoto i s =
     (let (existed, m) = Map_delete (photos s) i in (existed, s\<lparr>photos := m\<rparr>))"

subsection \<open>Documents\<close>

definition getProjectDocuments :: "MemStorage \<Rightarrow> string \<Rightarrow> Document list" where
  "getProjectDocuments s projectId =
     sort_key (\<lambda>doc. - d_uploadedAt doc)
       (filter (\<lambda>doc. d_projectId doc = projectId) (Map_values (documents s)))"

definition createDocument ::
  "string \<Rightarrow> timestamp \<Rightarrow> InsertDocument \<Rightarrow> MemStorage \<Rightarrow> Document \<times> MemStorage" where
  "createDocument uuid now document s =
     (let newDocument = \<lparr> d_id = uuid, d_projectId = id_projectId document,
            d_filename = id_filename document, d_originalName = id_originalName document,
            d_type = id_type document, d_size = id_size document, d_uploadedAt = now \<rparr>
      in (newDocument, s\<lparr>documents := Map_set (documents s) uuid newDocument\<rparr>))"

definition deleteDocument :: "string \<Rightarrow> MemStorage \<Rightarrow> bool \<times> MemStorage" where
  "deleteDocument i s =
     (let (existed, m) = Map_delete (documents s) i in (existed, s\<lparr>documents := m\<rparr>))"

subsection \<open>Material tests and test results\<close>

definition getMaterialTests :: "MemStorage \<Rightarrow> MaterialTest list" where
  "getMaterialTests s = Map_values (materialTests s)"

definition getMaterialTestsByCategory :: "MemStorage \<Rightarrow> string \<Rightarrow> MaterialTest list" where
  "getMaterialTestsByCategory s category =
     filter (\<lambda>test. mt_category test = category) (Map_values (materialTests s))"

definition createMaterialTest ::
  "string \<Rightarrow> timestamp \<Rightarrow> timestamp \<Rightarrow> InsertMaterialTest \<Rightarrow> MemStorage
     \<Rightarrow> MaterialTest \<times> MemStorage" where
  "createMaterialTest uuid t1 t2 test s =
     (let newTest = \<lparr> mt_id = uuid, mt_name = imt_name test, mt_category = imt_category test,
            mt_specification = imt_specification test, mt_createdAt = t1, mt_updatedAt = t2 \<rparr>
      in (newTest, s\<lparr>materialTests := Map_set (materialTests s) uuid newTest\<rparr>))"

definition getTestResults :: "MemStorage \<Rightarrow> TestResultView list" where
  "getTestResults s =
     map (\<lambda>result.
            (let project = Map_get (projects s) (tr_projectId result);
                 test = Map_get (materialTests s) (tr_materialTestId result)
             in TestResult.extend result
                  (TestResultView.fields
                     (name_or (map_option p_name project) ''Unknown Project'')
                     (name_or (map_option mt_name test) ''Unknown Test''))))
         (Map_values (testResults s))"

definition createTestResult ::
  "string \<Rightarrow> timestamp \<Rightarrow> InsertTestResult \<Rightarrow> MemStorage \<Rightarrow> TestResult \<times> MemStorage" where
  "createTestResult uuid now result s =
     (let newResult = \<lparr> tr_id = uuid, tr_projectId = itr_projectId result,
            tr_materialTestId = itr_materialTestId result, tr_result = itr_result result,
            tr_status = itr_status result, tr_testedAt = now \<rparr>
      in (newResult, s\<lparr>testResults := Map_set (testResults s) uuid newResult\<rparr>))"

subsection \<open>Reminders\<close>

definition getActiveReminders :: "MemStorage \<Rightarrow> ReminderView list" where
  "getActiveReminders s =
     sort_key r_scheduledFor
       (map (\<lambda>reminder.
               (let project = Map_get (projects s) (r_projectId reminder)
                in Reminder.extend reminder
                     (ReminderView.fields (name_or (map_option p_name project) ''Unknown Project''))))
          (filter (\<lambda>reminder. \<not> truthy (r_completed reminder)) (Map_values (reminders s))))"

definition createReminder ::
  "string \<Rightarrow> timestamp \<Rightarrow> InsertReminder \<Rightarrow> MemStorage \<Rightarrow> Reminder \<times> MemStorage" where
  "createReminder uuid now reminder s =
     (let newReminder = \<lparr> r_id = uuid, r_projectId = ir_projectId reminder,
            r_title = ir_title reminder, r_type = ir_type reminder,
            r_scheduledFor = ir_scheduledFor reminder, r_completed = ir_completed reminder,
            r_createdAt = now \<rparr>
      in (newReminder, s\<lparr>reminders := Map_set (reminders s) uuid newReminder\<rparr>))"

definition markReminderComplete :: "string \<Rightarrow> MemStorage \<Rightarrow> bool \<times> MemStorage" where
  "markReminderComplete i s =
     (case Map_get (reminders s) i of
        None \<Rightarrow> (False, s)
      | Some reminder \<Rightarrow>
          (True, s\<lparr>reminders := Map_set (reminders s) i (reminder\<lparr>r_completed := Some True\<rparr>)\<rparr>))"

subsection \<open>Calendar events\<close>

text \<open>
  \<open>Date.prototype.getMonth\<close> and \<open>getFullYear\<close> read the date in the server's local time
  zone, which the repository does not fix; they are parameters.
\<close>

definition getCalendarEvents ::
  "(timestamp \<Rightarrow> int) \<Rightarrow> (timestamp \<Rightarrow> int) \<Rightarrow> MemStorage \<Rightarrow> int option \<Rightarrow> int option
     \<Rightarrow> CalendarEventView list" where
  "getCalendarEvents getMonth getFullYear s month year =
     (let events = Map_values (calendarEvents s);
          events' = (case (month, year) of
                       (Some m, Some y) \<Rightarrow>
                         filter (\<lambda>event. getMonth (ce_date event) = m
                                        \<and> getFullYear (ce_date event) = y) events
                     | _ \<Rightarrow> events)
      in map (\<lambda>event.
                (let project = Map_get (projects s) (ce_projectId event)
                 in CalendarEvent.extend event
                      (CalendarEventView.fields
                         (name_or (map_option p_name project) ''Unknown Project''))))
           events')"

text \<open>
  For a server whose time zone is UTC the two readings are those of the proleptic Gregorian
  calendar: the day number since the epoch is split into 400-year eras, the year of the era
  and the day of a year that starts in March. \<open>getMonth\<close> counts from 0.
\<close>

definition utcYearMonth :: "timestamp \<Rightarrow> int \<times> int" where
  "utcYearMonth t =
     (let z = t div 86400000 + 719468;
          era = z div 146097;
          doe = z mod 146097;
          yoe = (doe - doe div 1460 + doe div 36524 - doe div 146096) div 365;
          doy = doe - (365 * yoe + yoe div 4 - yoe div 100);
          mp = (5 * doy + 2) div 153;
          m = (if mp < 10 then mp + 3 else mp - 9)
      in (yoe + era * 400 + (if m \<le> 2 then 1 else 0), m - 1))"

definition utcFullYear :: "timestamp \<Rightarrow> int" where
  "utcFullYear t = fst (utcYearMonth t)"

definition utcMonth :: "timestamp \<Rightarrow> int" where
  "utcMonth t = snd (utcYearMonth t)"

definition createCalendarEvent ::
  "string \<Rightarrow> timestamp \<Rightarrow> InsertCalendarEvent \<Rightarrow> MemStorage \<Rightarrow> CalendarEvent \<times> MemStorage" where
  "createCalendarEvent uuid now event s =
     (let newEvent = \<lparr> ce_id = uuid, ce_projectId = ice_projectId event,
            ce_title = ice_title event, ce_description = ice_description event,
            ce_date = ice_date event, ce_type = ice_type event, ce_createdAt = now \<rparr>
      in (newEvent, s\<lparr>calendarEvents := Map_set (calendarEvents s) uuid newEvent\<rparr>))"

subsection \<open>Stats\<close>

definition getProjectStats :: "MemStorage \<Rightarrow> ProjectStats" where
  "getProjectStats s =
     \<lparr> activeProjects = length (filter (\<lambda>p. p_status p = Some ''active'') (Map_values (projects s))),
       photosCount = length (Map_values (photos s)),
       pendingInspections =
         length (filter (\<lambda>r. \<not> truthy (r_completed r)) (Map_values (reminders s))),
       documentsCount = length (Map_values (documents s)) \<rparr>"

subsection \<open>Construction\<close>

text \<open>
  The constructor starts from empty maps and runs \<open>initializeData\<close>. \<open>clock k\<close> is the
  \<open>k\<close>-th clock reading of the constructor, in source order; \<open>new Date("2024-11-01")\<close> is
  midnight UTC of that day. The one non-ASCII character of the sample data is written as its
  UTF-8 bytes.
\<close>

definition emptyStorage :: MemStorage where
  "emptyStorage = \<lparr> projects = [], photos = [], documents = [], materialTests = [],
       testResults = [], reminders = [], calendarEvents = [] \<rparr>"

definition initializeData :: "(nat \<Rightarrow> timestamp) \<Rightarrow> MemStorage" where
  "initializeData clock =
     (let project1 = \<lparr> p_id = ''proj-1'', p_name = ''Downtown Office Complex'',
            p_description = Some ''15-story commercial building with underground parking structure'',
            p_location = Some ''Downtown LA'', p_status = Some ''active'', p_type = ''building'',
            p_createdAt = 1730419200000, p_updatedAt = clock 0 \<rparr>;
          project2 = \<lparr> p_id = ''proj-2'', p_name = ''Highway Bridge Inspection'',
            p_description = Some ''Structural integrity assessment of 200ft span bridge'',
            p_location = Some ''I-405 North'', p_status = Some ''review'', p_type = ''infrastructure'',
            p_createdAt = 1728950400000, p_updatedAt = clock 1 \<rparr>;
          project3 = \<lparr> p_id = ''proj-3'', p_name = ''Residential Foundation'',
            p_description = Some ''Single-family home foundation inspection and documentation'',
            p_location = Some ''Beverly Hills'', p_status = Some ''complete'', p_type = ''residential'',
            p_createdAt = 1727740800000, p_updatedAt = clock 2 \<rparr>;
          concreteTests =
            [\<lparr> mt_id = ''test-1'', mt_name = ''Compressive Strength'', mt_category = ''concrete'',
                mt_specification = ''Min 4000 PSI @ 28 days'',
                mt_createdAt = clock 3, mt_updatedAt = clock 4 \<rparr>,
             \<lparr> mt_id = ''test-2'', mt_name = ''Slump Test'', mt_category = ''concrete'',
                mt_specification =
                  ''4'' @ [CHR 0x22] @ '' '' @ [CHR 0xC2, CHR 0xB1] @ '' 1'' @ [CHR 0x22] @ '' per ACI 318'',
                mt_createdAt = clock 5, mt_updatedAt = clock 6 \<rparr>];
          soilTests =
            [\<lparr> mt_id = ''test-3'', mt_name = ''Proctor Density'', mt_category = ''soil'',
                mt_specification = ''95% max density, '' @ [CHR 0xC2, CHR 0xB1] @ ''2% moisture'',
                mt_createdAt = clock 7, mt_updatedAt = clock 8 \<rparr>];
          reminder1 = \<lparr> r_id = ''rem-1'', r_projectId = ''proj-1'', r_title = ''599 Inspection Due'',
            r_type = ''599'', r_scheduledFor = clock 9 + 24 * 60 * 60 * 1000,
            r_completed = Some False, r_createdAt = clock 10 \<rparr>
      in emptyStorage\<lparr>
           projects := Map_set (Map_set (Map_set [] ''proj-1'' project1) ''proj-2'' project2)
                         ''proj-3'' project3,
           materialTests := foldl (\<lambda>m test. Map_set m (mt_id test) test) [] (concreteTests @ soilTests),
           reminders := Map_set [] ''rem-1'' reminder1 \<rparr>)"

subsection \<open>The mutating methods as one step function\<close>

datatype operation =
    CreateProject string timestamp timestamp InsertProject
  | UpdateProject string PartialInsertProject timestamp
  | DeleteProject string
  | CreatePhoto string timestamp timestamp InsertPhoto
  | DeletePhoto string
  | CreateDocument string timestamp InsertDocument
  | DeleteDocument string
  | CreateMaterialTest string timestamp timestamp InsertMaterialTest
  | CreateTestResult string timestamp InsertTestResult
  | CreateReminder string timestamp InsertReminder
  | MarkReminderComplete string
  | CreateCalendarEvent string timestamp InsertCalendarEvent

fun apply_operation :: "operation \<Rightarrow> MemStorage \<Rightarrow> MemStorage" where
  "apply_operation (CreateProject uuid t1 t2 x) s = snd (createProject uuid t1 t2 x s)"
| "apply_operation (UpdateProject i u now) s = snd (updateProject i u now s)"
| "apply_operation (DeleteProject i) s = snd (deleteProject i s)"
| "apply_operation (CreatePhoto uuid t1 t2 x) s = snd (createPhoto uuid t1 t2 x s)"
| "apply_operation (DeletePhoto i) s = snd (deletePhoto i s)"
| "apply_operation (CreateDocument uuid now x) s = snd (createDocument uuid now x s)"
| "apply_operation (DeleteDocument i) s = snd (deleteDocument i s)"
| "apply_operation (CreateMaterialTest uuid t1 t2 x) s = snd (createMaterialTest uuid t1 t2 x s)"
| "apply_operation (CreateTestResult uuid now x) s = snd (createTestResult uuid now x s)"
| "apply_operation (CreateReminder uuid now x) s = snd (createReminder uuid now x s)"
| "apply_operation (MarkReminderComplete i) s = snd (markReminderComplete i s)"
| "apply_operation (CreateCalendarEvent uuid now x) s = snd (createCalendarEvent uuid now x s)"

text \<open>
  \<open>randomUUID()\<close> returns an identifier that is not in use: the key a create operation
  stores under is new to the map it stores into.
\<close>

fun uuid_fresh :: "operation \<Rightarrow> MemStorage \<Rightarrow> bool" where
  "uuid_fresh (CreateProject uuid _ _ _) s = (\<not> Map_has (projects s) uuid)"
| "uuid_fresh (CreatePhoto uuid _ _ _) s = (\<not> Map_has (photos s) uuid)"
| "uuid_fresh (CreateDocument uuid _ _) s = (\<not> Map_has (documents s) uuid)"
| "uuid_fresh (CreateMaterialTest uuid _ _ _) s = (\<not> Map_has (materialTests s) uuid)"
| "uuid_fresh (CreateTestResult uuid _ _) s = (\<not> Map_has (testResults s) uuid)"
| "uuid_fresh (CreateReminder uuid _ _) s = (\<not> Map_has (reminders s) uuid)"
| "uuid_fresh (CreateCalendarEvent uuid _ _) s = (\<not> Map_has (calendarEvents s) uuid)"
| "uuid_fresh _ s = True"

fun run :: "operation list \<Rightarrow> MemStorage \<Rightarrow> MemStorage" where
  "run [] s = s"
| "run (x # xs) s = run xs (apply_operation x s)"

fun uuids_fresh :: "operation list \<Rightarrow> MemStorage \<Rightarrow> bool" where
  "uuids_fresh [] s = True"
| "uuids_fresh (x # xs) s = (uuid_fresh x s \<and> uuids_fresh xs (apply_operation x s))"

section \<open>Observations and sample stores\<close>

text \<open>The \<open>completed\<close> field of the reminder stored under a key, if there is one.\<close>

definition completed_at :: "MemStorage \<Rightarrow> string \<Rightarrow> bool option option" where
  "completed_at s i = map_option r_completed (Map_get (reminders s) i)"

text \<open>
  The store as the constructor leaves it when its clock readings are successive milliseconds
  from 2024-11-01T12:00:00Z, and a short session on it.
\<close>

definition sampleClock :: "nat \<Rightarrow> timestamp" where
  "sampleClock k = 1730462400000 + int k"

definition sampleStorage :: MemStorage where
  "sampleStorage = initializeData sampleClock"

definition sampleOperations :: "operation list" where
  "sampleOperations =
     [MarkReminderComplete ''rem-1'',
      CreateReminder ''rem-2'' 1730462500000
        \<lparr> ir_projectId = ''proj-1'', ir_title = ''SW3P walk'', ir_type = ''sw3p'',
          ir_scheduledFor = 1730600000000, ir_completed = None \<rparr>,
      UpdateProject ''proj-1''
        \<lparr> u_name = None, u_description = Some (Some ''x''), u_location = None, u_status = None,
          u_type = None \<rparr> 1730462600000,
      DeleteProject ''proj-1'']"

text \<open>The sample store after a photo upload session on its first project.\<close>

definition populateOperations :: "operation list" where
  "populateOperations =
     [CreatePhoto ''photo-1'' 1730462700000 1730462700000
        \<lparr> iph_projectId = ''proj-1'', iph_filename = ''1730462700000-1-north.jpg'',
          iph_description = Some '''', iph_latitude = None, iph_longitude = None,
          iph_takenAt = None \<rparr>,
      CreatePhoto ''photo-2'' 1730462800000 1730462800000
        \<lparr> iph_projectId = ''proj-1'', iph_filename = ''1730462800000-2-south.jpg'',
          iph_description = Some ''footing'', iph_latitude = None, iph_longitude = None,
          iph_takenAt = None \<rparr>,
      CreateDocument ''doc-1'' 1730462900000
        \<lparr> id_projectId = ''proj-1'', id_filename = ''1730462900000-3-plan.pdf'',
          id_originalName = ''plan.pdf'', id_type = ''plan_sheets'', id_size = 52344 \<rparr>,
      CreateTestResult ''res-1'' 1730463000000
        \<lparr> itr_projectId = ''proj-1'', itr_materialTestId = ''test-1'', itr_result = ''4250 PSI'',
          itr_status = ''pass'' \<rparr>,
      CreateCalendarEvent ''evt-1'' 1730463100000
        \<lparr> ice_projectId = ''proj-1'', ice_title = ''Site visit'', ice_description = None,
          ice_date = 1730800000000, ice_type = ''visit'' \<rparr>]"

definition populatedStorage :: MemStorage where
  "populatedStorage = run populateOperations sampleStorage"

text \<open>The sample store after a session that creates a project with the empty string as its name.\<close>

definition unnamedOperations :: "operation list" where
  "unnamedOperations =
     [CreateProject ''proj-0'' 1730462400000 1730462400000
        \<lparr> ip_name = '''', ip_description = None, ip_location = None, ip_status = Some ''active'',
          ip_type = ''building'' \<rparr>,
      CreateMaterialTest ''test-0'' 1730462400001 1730462400001
        \<lparr> imt_name = ''Slump Test'', imt_category = ''concrete'', imt_specification = ''ACI 318'' \<rparr>,
      CreateTestResult ''res-0'' 1730462400002
        \<lparr> itr_projectId = ''proj-0'', itr_materialTestId = ''test-0'', itr_result = ''4 in'',
          itr_status = ''pass'' \<rparr>,
      CreateReminder ''rem-0'' 1730462400003
        \<lparr> ir_projectId = ''proj-0'', ir_title = ''599 Inspection Due'', ir_type = ''599'',
          ir_scheduledFor = 1730548800000, ir_completed = None \<rparr>,
      CreateCalendarEvent ''evt-0'' 1730462400004
        \<lparr> ice_projectId = ''proj-0'', ice_title = ''Deadline'', ice_description = None,
          ice_date = 1730800000000, ice_type = ''deadline'' \<rparr>]"

definition unnamedStorage :: MemStorage where
  "unnamedStorage = run unnamedOperations sampleStorage"

text \<open>The update \<open>{description: x}\<close>: one key, nothing else.\<close>

definition descriptionOnly :: "string \<Rightarrow> PartialInsertProject" where
  "descriptionOnly x = \<lparr> u_name = None, u_description = Some (Some x), u_location = None,
     u_status = None, u_type = None \<rparr>"


text \<open>
  The reminders \<open>getNextInspection\<close> chooses from: those of the project that are not
  completed, in store order.
\<close>

definition pendingReminders :: "MemStorage \<Rightarrow> string \<Rightarrow> Reminder list" where
  "pendingReminders s projectId =
     filter (\<lambda>r. r_projectId r = projectId \<and> r_completed r \<noteq> Some True)
       (Map_values (reminders s))"

text \<open>The callback that \<open>getActiveReminders\<close> maps over the reminders.\<close>

definition reminderView :: "MemStorage \<Rightarrow> Reminder \<Rightarrow> ReminderView" where
  "reminderView s reminder = Reminder.extend reminder
     (ReminderView.fields
        (name_or (map_option p_name (Map_get (projects s) (r_projectId reminder)))
           ''Unknown Project''))"

text \<open>The callbacks that \<open>getTestResults\<close> and \<open>getCalendarEvents\<close> map over their lists.\<close>

definition testResultView :: "MemStorage \<Rightarrow> TestResult \<Rightarrow> TestResultView" where
  "testResultView s result = TestResult.extend result
     (TestResultView.fields
        (name_or (map_option p_name (Map_get (projects s) (tr_projectId result)))
           ''Unknown Project'')
        (name_or (map_option mt_name (Map_get (materialTests s) (tr_materialTestId result)))
           ''Unknown Test''))"

definition calendarEventView :: "MemStorage \<Rightarrow> CalendarEvent \<Rightarrow> CalendarEventView" where
  "calendarEventView s event = CalendarEvent.extend event
     (CalendarEventView.fields
        (name_or (map_option p_name (Map_get (projects s) (ce_projectId event)))
           ''Unknown Project''))"

text \<open>Whether an event passes the month and year filter of \<open>getCalendarEvents\<close>.\<close>

definition inMonth ::
  "(timestamp \<Rightarrow> int) \<Rightarrow> (timestamp \<Rightarrow> int) \<Rightarrow> int option \<Rightarrow> int option \<Rightarrow> CalendarEvent \<Rightarrow> bool" where
  "inMonth getMonth getFullYear month year event =
     (case (month, year) of
        (Some m, Some y) \<Rightarrow> getMonth (ce_date event) = m \<and> getFullYear (ce_date event) = y
      | _ \<Rightarrow> True)"

text \<open>Every map of the store has pairwise different keys, as a \<open>Map\<close> has.\<close>

definition keys_distinct :: "MemStorage \<Rightarrow> bool" where
  "keys_distinct s =
     (distinct (map fst (projects s)) \<and> distinct (map fst (photos s))
      \<and> distinct (map fst (documents s)) \<and> distinct (map fst (materialTests s))
      \<and> distinct (map fst (testResults s)) \<and> distinct (map fst (reminders s))
      \<and> distinct (map fst (calendarEvents s)))"

text \<open>Sessions that only create, and what they create.\<close>

fun creation :: "operation \<Rightarrow> bool" where
  "creation (UpdateProject _ _ _) = False"
| "creation (DeleteProject _) = False"
| "creation (DeletePhoto _) = False"
| "creation (DeleteDocument _) = False"
| "creation (MarkReminderComplete _) = False"
| "creation _ = True"

fun createdProjects :: "string option \<Rightarrow> operation list \<Rightarrow> nat" where
  "createdProjects status [] = 0"
| "createdProjects status (CreateProject _ _ _ x # xs) =
     (if ip_status x = status then 1 else 0) + createdProjects status xs"
| "createdProjects status (_ # xs) = createdProjects status xs"

fun createdPhotos :: "operation list \<Rightarrow> nat" where
  "createdPhotos [] = 0"
| "createdPhotos (CreatePhoto _ _ _ _ # xs) = 1 + createdPhotos xs"
| "createdPhotos (_ # xs) = createdPhotos xs"

text \<open>
  The sample store with its three projects deleted, and a session on it that creates three
  projects, two active and one complete, and five photos across them.
\<close>

definition clearedStorage :: MemStorage where
  "clearedStorage =
     run [DeleteProject ''proj-1'', DeleteProject ''proj-2'', DeleteProject ''proj-3'']
       sampleStorage"

definition statsOperations :: "operation list" where
  "statsOperations =
     [CreateProject ''a'' 1730470000000 1730470000000
        \<lparr> ip_name = ''Alpha'', ip_description = None, ip_location = None,
          ip_status = Some ''active'', ip_type = ''building'' \<rparr>,
      CreateProject ''b'' 1730470000001 1730470000001
        \<lparr> ip_name = ''Beta'', ip_description = None, ip_location = None,
          ip_status = Some ''active'', ip_type = ''residential'' \<rparr>,
      CreateProject ''c'' 1730470000002 1730470000002
        \<lparr> ip_name = ''Gamma'', ip_description = None, ip_location = None,
          ip_status = Some ''complete'', ip_type = ''infrastructure'' \<rparr>,
      CreatePhoto ''f1'' 1730470000003 1730470000003
        \<lparr> iph_projectId = ''a'', iph_filename = ''1.jpg'', iph_description = None,
          iph_latitude = None, iph_longitude = None, iph_takenAt = None \<rparr>,
      CreatePhoto ''f2'' 1730470000004 1730470000004
        \<lparr> iph_projectId = ''a'', iph_filename = ''2.jpg'', iph_description = None,
          iph_latitude = None, iph_longitude = None, iph_takenAt = None \<rparr>,
      CreatePhoto ''f3'' 1730470000005 1730470000005
        \<lparr> iph_projectId = ''b'', iph_filename = ''3.jpg'', iph_description = None,
          iph_latitude = None, iph_longitude = None, iph_takenAt = None \<rparr>,
      CreatePhoto ''f4'' 1730470000006 1730470000006
        \<lparr> iph_projectId = ''c'', iph_filename = ''4.jpg'', iph_description = None,
          iph_latitude = None, iph_longitude = None, iph_takenAt = None \<rparr>,
      CreatePhoto ''f5'' 1730470000007 1730470000007
        \<lparr> iph_projectId = ''c'', iph_filename = ''5.jpg'', iph_description = None,
          iph_latitude = None, iph_longitude = None, iph_takenAt = None \<rparr>]"

text \<open>What that session stores.\<close>

definition unnamedProject :: Project where
  "unnamedProject = \<lparr> p_id = ''proj-0'', p_name = '''', p_description = None, p_location = None,
     p_status = Some ''active'', p_type = ''building'', p_createdAt = 1730462400000,
     p_updatedAt = 1730462400000 \<rparr>"

definition unnamedResult :: TestResult where
  "unnamedResult = \<lparr> tr_id = ''res-0'', tr_projectId = ''proj-0'', tr_materialTestId = ''test-0'',
     tr_result = ''4 in'', tr_status = ''pass'', tr_testedAt = 1730462400002 \<rparr>"

definition unnamedReminder :: Reminder where
  "unnamedReminder = \<lparr> r_id = ''rem-0'', r_projectId = ''proj-0'', r_title = ''599 Inspection Due'',
     r_type = ''599'', r_scheduledFor = 1730548800000, r_completed = None,
     r_createdAt = 1730462400003 \<rparr>"

definition unnamedEvent :: CalendarEvent where
  "unnamedEvent = \<lparr> ce_id = ''evt-0'', ce_projectId = ''proj-0'', ce_title = ''Deadline'',
     ce_description = None, ce_date = 1730800000000, ce_type = ''deadline'',
     ce_createdAt = 1730462400004 \<rparr>"

section \<open>Properties\<close>

subsection \<open>The map operations\<close>

lemmas map_defs = Map_get_def Map_has_def Map_set_def Map_delete_def Map_values_def

lemmas method_defs = getProject_def createProject_def updateProject_def deleteProject_def
  createPhoto_def deletePhoto_def createDocument_def deleteDocument_def createMaterialTest_def
  createTestResult_def createReminder_def markReminderComplete_def createCalendarEvent_def

lemmas sample_defs = sampleStorage_def initializeData_def emptyStorage_def sampleClock_def

lemmas session_defs = populatedStorage_def populateOperations_def unnamedStorage_def
  unnamedOperations_def sampleOperations_def

lemmas view_defs = Project.defs ProjectWithCounts.defs TestResult.defs TestResultView.defs
  Reminder.defs ReminderView.defs CalendarEvent.defs CalendarEventView.defs

lemma Map_get_set: "Map_get (Map_set m k v) k' = (if k' = k then Some v else Map_get m k')"
  by (simp add: Map_get_def Map_set_def update_conv')

lemma Map_has_set: "Map_has (Map_set m k v) k' = (k' = k \<or> Map_has m k')"
  by (simp add: Map_has_def Map_set_def update_conv')

lemma Map_values_set_fresh: "\<not> Map_has m k \<Longrightarrow> Map_values (Map_set m k v) = Map_values m @ [v]"
  unfolding Map_has_def Map_set_def Map_values_def
  by (induction m) (auto split: if_splits)

lemma Map_get_delete: "Map_get (snd (Map_delete m k)) k' = (if k' = k then None else Map_get m k')"
  by (simp add: Map_get_def Map_delete_def delete_conv')

subsection \<open>Sorting\<close>

lemma insort_key_map:
  "insort_key f (g x) (map g ys) = map g (insort_key (\<lambda>a. f (g a)) x ys)"
  by (induction ys) auto

lemma sort_key_map: "sort_key f (map g xs) = map g (sort_key (\<lambda>a. f (g a)) xs)"
  by (induction xs) (auto simp: insort_key_map)

lemma sorted_desc_sort_key:
  fixes f :: "'a \<Rightarrow> int"
  shows "sorted_wrt (\<lambda>a b. f b \<le> f a) (sort_key (\<lambda>x. - f x) xs)"
proof -
  have "sorted (map (\<lambda>x. - f x) (sort_key (\<lambda>x. - f x) xs))"
    by (rule sorted_sort_key)
  then show ?thesis
    by (simp add: sorted_wrt_map)
qed

lemma hd_sort_key_Min:
  fixes f :: "'a \<Rightarrow> int"
  assumes "sort_key f xs = r # rest"
  shows "f r = Min (f ` set xs)"
proof -
  have "sorted (map f (r # rest))"
    using sorted_sort_key [of f xs] assms by simp
  then have le: "\<forall>y \<in> set (r # rest). f r \<le> f y" by auto
  have set_eq: "set (r # rest) = set xs"
    using set_sort [of f xs] assms by simp
  have "Min (f ` set xs) = f r"
  proof (rule Min_eqI)
    show "finite (f ` set xs)" by simp
    show "\<And>y. y \<in> f ` set xs \<Longrightarrow> f r \<le> y" using le set_eq by auto
    show "f r \<in> f ` set xs" using set_eq by auto
  qed
  then show ?thesis by simp
qed

subsection \<open>Deleting a project\<close>

lemma deleteProject_frame:
  "photos (snd (deleteProject i s)) = photos s
   \<and> documents (snd (deleteProject i s)) = documents s
   \<and> materialTests (snd (deleteProject i s)) = materialTests s
   \<and> testResults (snd (deleteProject i s)) = testResults s
   \<and> reminders (snd (deleteProject i s)) = reminders s
   \<and> calendarEvents (snd (deleteProject i s)) = calendarEvents s"
  by (simp add: deleteProject_def Map_delete_def)

lemma deleteProject_removes:
  "fst (deleteProject i s) = Map_has (projects s) i
   \<and> getProject (snd (deleteProject i s)) i = None"
  by (simp add: deleteProject_def getProject_def Map_delete_def Map_get_def delete_conv')

text \<open>
  Claim C1 fails on the code: \<open>deleteProject\<close> removes the project record and nothing else.
  In the sample store after an upload session, deleting the first project succeeds and
  \<open>getProject\<close> no longer finds it, yet its two photos, its document, its test result, its
  reminder and its calendar event are all still listed, each still carrying the deleted
  project's identifier.
\<close>

theorem deleteProject_leaves_dependents:
  "fst (deleteProject ''proj-1'' populatedStorage)
   \<and> getProject (snd (deleteProject ''proj-1'' populatedStorage)) ''proj-1'' = None
   \<and> map ph_id (getProjectPhotos (snd (deleteProject ''proj-1'' populatedStorage)) ''proj-1'')
        = [''photo-2'', ''photo-1'']
   \<and> map d_id (getProjectDocuments (snd (deleteProject ''proj-1'' populatedStorage)) ''proj-1'')
        = [''doc-1'']
   \<and> map tr_projectId (getTestResults (snd (deleteProject ''proj-1'' populatedStorage)))
        = [''proj-1'']
   \<and> map r_projectId (getActiveReminders (snd (deleteProject ''proj-1'' populatedStorage)))
        = [''proj-1'']
   \<and> map ce_projectId
        (getCalendarEvents utcMonth utcFullYear (snd (deleteProject ''proj-1'' populatedStorage))
           None None)
        = [''proj-1'']"
  by (simp add: getProjectPhotos_def getProjectDocuments_def
        getTestResults_def getActiveReminders_def getCalendarEvents_def sample_defs session_defs
        method_defs map_defs truthy_def view_defs Let_def)

subsection \<open>The next-inspection label\<close>

lemma diffDays_int: "diffDays next now = - ((now - next) div 86400000)"
proof -
  have "(1000 * 60 * 60 * 24 :: real) = of_int 86400000" by simp
  then show ?thesis
    unfolding diffDays_def by (simp only: ceiling_divide_eq_div minus_diff_eq)
qed

lemma diffDays_cases:
  "(diffDays next now = 0 \<longleftrightarrow> - 86400000 < next - now \<and> next - now \<le> 0)
   \<and> (diffDays next now = 1 \<longleftrightarrow> 0 < next - now \<and> next - now \<le> 86400000)
   \<and> (1 < diffDays next now \<longleftrightarrow> 86400000 < next - now)"
proof -
  define q where "q = (now - next) div 86400000"
  define r where "r = (now - next) mod 86400000"
  have r: "0 \<le> r" "r < 86400000" by (simp_all add: r_def)
  have x: "now - next = q * 86400000 + r"
    by (simp add: q_def r_def)
  have d: "diffDays next now = - q"
    by (simp add: diffDays_int q_def)
  show ?thesis
    unfolding d using r x by auto
qed

lemma getNextInspection_None:
  "pendingReminders s projectId = [] \<Longrightarrow> getNextInspection s projectId now = None"
  by (simp add: getNextInspection_def pendingReminders_def truthy_def)

lemma getNextInspection_Some:
  assumes "pendingReminders s projectId \<noteq> []"
  shows "getNextInspection s projectId now =
     (let next = Min (r_scheduledFor ` set (pendingReminders s projectId))
      in if diffDays next now = 0 then Some ''Today''
         else if diffDays next now = 1 then Some ''Tomorrow''
         else if 1 < diffDays next now then Some (string_of_int (diffDays next now) @ '' days'')
         else Some ''Overdue'')"
proof -
  let ?xs = "pendingReminders s projectId"
  have "sort_key r_scheduledFor ?xs \<noteq> []"
    using assms by (metis length_sort length_0_conv)
  then obtain r rest where srt: "sort_key r_scheduledFor ?xs = r # rest"
    by (cases "sort_key r_scheduledFor ?xs") auto
  have m: "r_scheduledFor r = Min (r_scheduledFor ` set ?xs)"
    by (rule hd_sort_key_Min [OF srt])
  have "getNextInspection s projectId now =
     (let next = r_scheduledFor r
      in if diffDays next now = 0 then Some ''Today''
         else if diffDays next now = 1 then Some ''Tomorrow''
         else if 1 < diffDays next now then Some (string_of_int (diffDays next now) @ '' days'')
         else Some ''Overdue'')"
    using srt by (simp add: getNextInspection_def pendingReminders_def truthy_def)
  then show ?thesis by (simp only: m)
qed

lemma getProjects_nth:
  assumes "k < length (Map_values (projects s))"
  shows "nextInspection (getProjects clock s ! k)
     = getNextInspection s (p_id (Map_values (projects s) ! k)) (clock k)"
  using assms
  by (simp add: getProjects_def nth_enumerate_eq Project.defs ProjectWithCounts.defs)

text \<open>
  Claim C2, as amended. When a project has a reminder that is not completed, the label is
  computed from the earliest \<open>scheduledFor\<close> among them, by whole periods of 24 hours and
  not by calendar days: with \<open>d\<close> the milliseconds from now to that time, it is
  \<open>"Overdue"\<close> when \<open>d\<close> is at most minus 24 hours, \<open>"Today"\<close> when \<open>d\<close> is at most zero,
  \<open>"Tomorrow"\<close> when \<open>d\<close> is at most 24 hours, and otherwise \<open>"N days"\<close> where \<open>N\<close> is \<open>d\<close>
  in days, rounded up, which is then greater than one. The project list carries that label
  for each project, computed at the clock reading taken for it.
\<close>

theorem getNextInspection_label:
  "(pendingReminders s projectId \<noteq> [] \<longrightarrow>
      (let d = Min (r_scheduledFor ` set (pendingReminders s projectId)) - now
       in getNextInspection s projectId now =
            Some (if d \<le> - 86400000 then ''Overdue''
                  else if d \<le> 0 then ''Today''
                  else if d \<le> 86400000 then ''Tomorrow''
                  else string_of_int \<lceil>real_of_int d / 86400000\<rceil> @ '' days'')))
   \<and> (86400000 < next - now' \<longrightarrow> 1 < diffDays next now')
   \<and> (k < length (Map_values (projects s')) \<longrightarrow>
        nextInspection (getProjects clock s' ! k)
          = getNextInspection s' (p_id (Map_values (projects s') ! k)) (clock k))"
proof (intro conjI impI)
  assume h: "pendingReminders s projectId \<noteq> []"
  define nxt where "nxt = Min (r_scheduledFor ` set (pendingReminders s projectId))"
  have dd: "\<lceil>real_of_int (nxt - now) / 86400000\<rceil> = diffDays nxt now"
    by (simp add: diffDays_def)
  have c: "(diffDays nxt now = 0 \<longleftrightarrow> - 86400000 < nxt - now \<and> nxt - now \<le> 0)"
    "(diffDays nxt now = 1 \<longleftrightarrow> 0 < nxt - now \<and> nxt - now \<le> 86400000)"
    "(1 < diffDays nxt now \<longleftrightarrow> 86400000 < nxt - now)"
    using diffDays_cases [of nxt now] by blast+
  have "getNextInspection s projectId now =
            Some (if nxt - now \<le> - 86400000 then ''Overdue''
                  else if nxt - now \<le> 0 then ''Today''
                  else if nxt - now \<le> 86400000 then ''Tomorrow''
                  else string_of_int (diffDays nxt now) @ '' days'')"
    unfolding getNextInspection_Some [OF h] nxt_def [symmetric] Let_def
    using c by auto
  then show "let d = Min (r_scheduledFor ` set (pendingReminders s projectId)) - now
       in getNextInspection s projectId now =
            Some (if d \<le> - 86400000 then ''Overdue''
                  else if d \<le> 0 then ''Today''
                  else if d \<le> 86400000 then ''Tomorrow''
                  else string_of_int \<lceil>real_of_int d / 86400000\<rceil> @ '' days'')"
    unfolding Let_def nxt_def [symmetric] dd by simp
next
  assume "86400000 < next - now'"
  then show "1 < diffDays next now'"
    using diffDays_cases [of "next" now'] by blast
next
  assume "k < length (Map_values (projects s'))"
  then show "nextInspection (getProjects clock s' ! k)
          = getNextInspection s' (p_id (Map_values (projects s') ! k)) (clock k)"
    by (rule getProjects_nth)
qed

theorem getNextInspection_label_witness:
  "pendingReminders sampleStorage ''proj-1'' \<noteq> []
   \<and> getNextInspection sampleStorage ''proj-1'' 1730462400011 = Some ''Tomorrow''
   \<and> (86400000::int) < 1730548800009 - 1730458800009
   \<and> 1 < diffDays 1730548800009 1730458800009
   \<and> (0::nat) < length (Map_values (projects sampleStorage))
   \<and> nextInspection (getProjects sampleClock sampleStorage ! 0)
        = getNextInspection sampleStorage ''proj-1'' 1730462400000"
proof -
  have p: "pendingReminders sampleStorage ''proj-1''
      = [\<lparr> r_id = ''rem-1'', r_projectId = ''proj-1'', r_title = ''599 Inspection Due'',
           r_type = ''599'', r_scheduledFor = 1730548800009, r_completed = Some False,
           r_createdAt = 1730462400010 \<rparr>]"
    by (simp add: pendingReminders_def sample_defs map_defs Let_def)
  have k: "(0::nat) < length (Map_values (projects sampleStorage))"
    by (simp add: sample_defs map_defs Let_def)
  have i: "p_id (Map_values (projects sampleStorage) ! 0) = ''proj-1''"
    by (simp add: sample_defs map_defs Let_def)
  have c: "sampleClock 0 = 1730462400000"
    by (simp add: sampleClock_def)
  show ?thesis
    using getNextInspection_label
      [of sampleStorage "''proj-1''" 1730462400011 1730548800009 1730458800009 0 sampleStorage
        sampleClock]
      k
    by (simp add: p i c)
qed

text \<open>
  Claim C2 as stated fails at its own boundary cases. A reminder scheduled one millisecond
  before now is labelled \<open>"Today"\<close>, not \<open>"Overdue"\<close>; a reminder scheduled 25 hours after now
  (from 11:00 UTC on one day to 12:00 UTC on the next) is labelled \<open>"2 days"\<close>, not
  \<open>"Tomorrow"\<close>.
\<close>

theorem getNextInspection_boundary_counterexample:
  "map r_scheduledFor (pendingReminders sampleStorage ''proj-1'') = [1730548800009]
   \<and> getNextInspection sampleStorage ''proj-1'' (1730548800009 + 1) = Some ''Today''
   \<and> getNextInspection sampleStorage ''proj-1'' (1730548800009 - 25 * 60 * 60 * 1000)
       = Some ''2 days''"
  by (simp add: pendingReminders_def getNextInspection_def sample_defs map_defs truthy_def
        Let_def diffDays_int string_of_int_def digit_def)

subsection \<open>Creating a photo\<close>




subsection \<open>Completing a reminder\<close>

lemma markReminderComplete_present:
  "Map_has (reminders s) i \<Longrightarrow>
     fst (markReminderComplete i s)
     \<and> completed_at (snd (markReminderComplete i s)) i = Some (Some True)"
  by (auto simp: markReminderComplete_def Map_has_def Map_get_def completed_at_def Map_set_def
        update_conv' split: option.splits)

lemma markReminderComplete_absent:
  "\<not> Map_has (reminders s) i \<Longrightarrow> markReminderComplete i s = (False, s)"
  by (auto simp: markReminderComplete_def Map_has_def Map_get_def split: option.splits)

lemma markReminderComplete_keeps:
  "completed_at s j = Some (Some True) \<Longrightarrow>
     completed_at (snd (markReminderComplete i s)) j = Some (Some True)"
  by (auto simp: markReminderComplete_def completed_at_def Map_get_set split: option.splits)

lemma apply_operation_keeps_completed:
  assumes fresh: "uuid_fresh x s" and cmp: "completed_at s j = Some (Some True)"
  shows "completed_at (apply_operation x s) j = Some (Some True)"
proof (cases x)
  case (MarkReminderComplete i)
  then show ?thesis using markReminderComplete_keeps [OF cmp] by simp
next
  case (CreateReminder uuid now r)
  from fresh cmp CreateReminder have "j \<noteq> uuid"
    by (auto simp: completed_at_def Map_has_def Map_get_def)
  with cmp CreateReminder show ?thesis
    by (simp add: createReminder_def completed_at_def Map_get_set Let_def)
qed (use cmp in \<open>auto simp: completed_at_def createProject_def updateProject_def deleteProject_def
       createPhoto_def deletePhoto_def createDocument_def deleteDocument_def
       createMaterialTest_def createTestResult_def createCalendarEvent_def Let_def
       split: option.splits prod.splits\<close>)

lemma run_keeps_completed:
  "uuids_fresh xs s \<Longrightarrow> completed_at s j = Some (Some True) \<Longrightarrow>
     completed_at (run xs s) j = Some (Some True)"
  by (induction xs arbitrary: s) (auto simp: apply_operation_keeps_completed)

text \<open>
  Claim C4. Completing a reminder that is in the store succeeds and leaves its \<open>completed\<close>
  field \<open>true\<close>, and so does completing it a second time. Once a reminder's field is \<open>true\<close>
  it is still \<open>true\<close> after any sequence of the store's mutating methods (the identifiers of
  the create operations being new, as \<open>randomUUID\<close> makes them). Completing an identifier that
  is not in the store returns \<open>false\<close> and leaves the store as it was.
\<close>

theorem markReminderComplete_idempotent_monotonic:
  "(Map_has (reminders s) i \<longrightarrow>
      fst (markReminderComplete i s)
    \<and> completed_at (snd (markReminderComplete i s)) i = Some (Some True)
    \<and> fst (markReminderComplete i (snd (markReminderComplete i s)))
    \<and> completed_at (snd (markReminderComplete i (snd (markReminderComplete i s)))) i
        = Some (Some True))
   \<and> (uuids_fresh xs s' \<and> completed_at s' j = Some (Some True) \<longrightarrow>
        completed_at (run xs s') j = Some (Some True))
   \<and> (\<not> Map_has (reminders s'') k \<longrightarrow> markReminderComplete k s'' = (False, s''))"
proof (intro conjI impI)
  assume h: "Map_has (reminders s) i"
  let ?s1 = "snd (markReminderComplete i s)"
  from markReminderComplete_present [OF h]
  show "fst (markReminderComplete i s)" and c1: "completed_at ?s1 i = Some (Some True)"
    by simp_all
  from c1 have h1: "Map_has (reminders ?s1) i"
    by (auto simp: completed_at_def Map_has_def Map_get_def)
  from markReminderComplete_present [OF h1]
  show "fst (markReminderComplete i ?s1)"
    and "completed_at (snd (markReminderComplete i ?s1)) i = Some (Some True)"
    by simp_all
next
  assume "uuids_fresh xs s' \<and> completed_at s' j = Some (Some True)"
  then show "completed_at (run xs s') j = Some (Some True)"
    by (simp add: run_keeps_completed)
next
  assume "\<not> Map_has (reminders s'') k"
  then show "markReminderComplete k s'' = (False, s'')"
    by (rule markReminderComplete_absent)
qed

theorem markReminderComplete_idempotent_monotonic_witness:
  "Map_has (reminders sampleStorage) ''rem-1''
   \<and> fst (markReminderComplete ''rem-1'' sampleStorage)
   \<and> completed_at (snd (markReminderComplete ''rem-1'' sampleStorage)) ''rem-1'' = Some (Some True)
   \<and> fst (markReminderComplete ''rem-1'' (snd (markReminderComplete ''rem-1'' sampleStorage)))
   \<and> completed_at (snd (markReminderComplete ''rem-1''
          (snd (markReminderComplete ''rem-1'' sampleStorage)))) ''rem-1'' = Some (Some True)
   \<and> uuids_fresh sampleOperations (snd (markReminderComplete ''rem-1'' sampleStorage))
   \<and> completed_at (run sampleOperations (snd (markReminderComplete ''rem-1'' sampleStorage)))
        ''rem-1'' = Some (Some True)
   \<and> \<not> Map_has (reminders sampleStorage) ''rem-9''
   \<and> markReminderComplete ''rem-9'' sampleStorage = (False, sampleStorage)"
proof -
  have h1: "Map_has (reminders sampleStorage) ''rem-1''"
    by (simp add: sample_defs map_defs Let_def)
  have h3: "\<not> Map_has (reminders sampleStorage) ''rem-9''"
    by (simp add: sample_defs map_defs Let_def)
  let ?s1 = "snd (markReminderComplete ''rem-1'' sampleStorage)"
  have h2a: "uuids_fresh sampleOperations ?s1"
    by (simp add: sampleOperations_def sample_defs method_defs map_defs Let_def)
  have h2b: "completed_at ?s1 ''rem-1'' = Some (Some True)"
    by (simp add: completed_at_def sample_defs method_defs map_defs Let_def)
  show ?thesis
    using markReminderComplete_idempotent_monotonic
      [of sampleStorage "''rem-1''" sampleOperations ?s1 "''rem-1''" sampleStorage "''rem-9''"]
      h1 h2a h2b h3
    by simp
qed

subsection \<open>Updating a project\<close>

text \<open>
  Claim C5, as amended. For every project in the store, updating it with
  \<open>{description: x}\<close> and then reading it back yields the project with \<open>description\<close> equal
  to \<open>x\<close>, every other field except \<open>updatedAt\<close> as before, and \<open>updatedAt\<close> equal to the
  clock reading taken by the update; the update returns that same project. So \<open>updatedAt\<close>
  is greater than before exactly when the clock reading is.
\<close>

theorem updateProject_description_roundtrip:
  "getProject s i = Some p \<longrightarrow>
     getProject (snd (updateProject i (descriptionOnly x) now s)) i
       = Some (p\<lparr>p_description := Some x, p_updatedAt := now\<rparr>)
     \<and> fst (updateProject i (descriptionOnly x) now s)
       = Some (p\<lparr>p_description := Some x, p_updatedAt := now\<rparr>)"
  by (simp add: getProject_def updateProject_def descriptionOnly_def spread_def Map_get_set
        Let_def)

theorem updateProject_description_roundtrip_witness:
  "getProject sampleStorage ''proj-2'' =
     Some \<lparr> p_id = ''proj-2'', p_name = ''Highway Bridge Inspection'',
            p_description = Some ''Structural integrity assessment of 200ft span bridge'',
            p_location = Some ''I-405 North'', p_status = Some ''review'',
            p_type = ''infrastructure'', p_createdAt = 1728950400000,
            p_updatedAt = 1730462400001 \<rparr>
   \<and> getProject (snd (updateProject ''proj-2'' (descriptionOnly ''x'') 1730462400500
         sampleStorage)) ''proj-2'' =
     Some \<lparr> p_id = ''proj-2'', p_name = ''Highway Bridge Inspection'',
            p_description = Some ''x'',
            p_location = Some ''I-405 North'', p_status = Some ''review'',
            p_type = ''infrastructure'', p_createdAt = 1728950400000,
            p_updatedAt = 1730462400500 \<rparr>"
proof -
  have h: "getProject sampleStorage ''proj-2'' =
     Some \<lparr> p_id = ''proj-2'', p_name = ''Highway Bridge Inspection'',
            p_description = Some ''Structural integrity assessment of 200ft span bridge'',
            p_location = Some ''I-405 North'', p_status = Some ''review'',
            p_type = ''infrastructure'', p_createdAt = 1728950400000,
            p_updatedAt = 1730462400001 \<rparr>"
    by (simp add: getProject_def sample_defs map_defs Let_def)
  show ?thesis
    using updateProject_description_roundtrip
      [of sampleStorage "''proj-2''" _ "''x''" 1730462400500] h
    by simp
qed

text \<open>
  Claim C5 as stated fails when the update reads the same millisecond as the previous
  write: \<open>updatedAt\<close> is then equal to its prior value, not greater.
\<close>

theorem updateProject_updatedAt_counterexample:
  "map_option p_updatedAt (getProject sampleStorage ''proj-1'') = Some 1730462400000
   \<and> map_option p_updatedAt
        (getProject (snd (updateProject ''proj-1'' (descriptionOnly ''x'') 1730462400000
           sampleStorage)) ''proj-1'') = Some 1730462400000"
  by (simp add: getProject_def updateProject_def descriptionOnly_def spread_def sample_defs
        map_defs Let_def)

subsection \<open>Joined list views\<close>

lemma truncate_extend_TestResult: "TestResult.truncate (TestResult.extend r x) = r"
  by (simp add: TestResult.defs)

lemma truncate_extend_CalendarEvent: "CalendarEvent.truncate (CalendarEvent.extend r x) = r"
  by (simp add: CalendarEvent.defs)

lemma name_or_cases:
  "name_or (map_option f x) d = (case x of None \<Rightarrow> d | Some v \<Rightarrow> if f v = [] then d else f v)"
  by (cases x) (simp_all add: name_or_def)

lemma getTestResults_truncate:
  "map TestResult.truncate (getTestResults s) = Map_values (testResults s)"
  by (simp add: getTestResults_def truncate_extend_TestResult comp_def Let_def)

lemma getTestResults_projectName:
  "map trv_projectName (getTestResults s) =
     map (\<lambda>r. name_or (map_option p_name (getProject s (tr_projectId r))) ''Unknown Project'')
       (Map_values (testResults s))"
  by (simp add: getTestResults_def getProject_def comp_def Let_def view_defs)

lemma getTestResults_testName:
  "map trv_testName (getTestResults s) =
     map (\<lambda>r. name_or (map_option mt_name (Map_get (materialTests s) (tr_materialTestId r)))
                ''Unknown Test'')
       (Map_values (testResults s))"
  by (simp add: getTestResults_def comp_def Let_def view_defs)

text \<open>
  Claim C6, as amended. \<open>getTestResults\<close> has a result in every store state: one entry per
  stored test result, in store order, each extending that result. Its \<open>projectName\<close> is the
  name of the project that \<open>projectId\<close> refers to when there is one and its name is not the
  empty string, and the literal \<open>"Unknown Project"\<close> otherwise; its \<open>testName\<close> is got in
  the same way from the material test and \<open>"Unknown Test"\<close>.
\<close>

theorem getTestResults_total_join:
  "map TestResult.truncate (getTestResults s) = Map_values (testResults s)
   \<and> map trv_projectName (getTestResults s) =
       map (\<lambda>r. case getProject s (tr_projectId r) of
                   None \<Rightarrow> ''Unknown Project''
                 | Some p \<Rightarrow> if p_name p = [] then ''Unknown Project'' else p_name p)
         (Map_values (testResults s))
   \<and> map trv_testName (getTestResults s) =
       map (\<lambda>r. case Map_get (materialTests s) (tr_materialTestId r) of
                   None \<Rightarrow> ''Unknown Test''
                 | Some t \<Rightarrow> if mt_name t = [] then ''Unknown Test'' else mt_name t)
         (Map_values (testResults s))"
  by (simp add: getTestResults_truncate getTestResults_projectName getTestResults_testName
        name_or_cases)

text \<open>
  Claim C6 as stated fails: the project of the stored test result exists and its name is
  the empty string, but the entry's \<open>projectName\<close> is \<open>"Unknown Project"\<close>, not that name.
\<close>

theorem getTestResults_empty_name_counterexample:
  "map_option p_name (getProject unnamedStorage ''proj-0'') = Some ''''
   \<and> map tr_projectId (getTestResults unnamedStorage) = [''proj-0'']
   \<and> map trv_projectName (getTestResults unnamedStorage) = [''Unknown Project'']"
  by (simp add: getTestResults_def sample_defs session_defs method_defs map_defs
        name_or_def view_defs Let_def)

subsection \<open>Active reminders\<close>

lemma getActiveReminders_eq:
  "getActiveReminders s = map (reminderView s)
     (sort_key r_scheduledFor
        (filter (\<lambda>r. \<not> truthy (r_completed r)) (Map_values (reminders s))))"
proof -
  have "(\<lambda>a. r_scheduledFor (reminderView s a)) = r_scheduledFor"
    by (auto simp: reminderView_def Reminder.defs)
  then show ?thesis
    by (simp add: getActiveReminders_def sort_key_map reminderView_def [abs_def] Let_def)
qed

lemma truncate_extend_Reminder: "Reminder.truncate (Reminder.extend r x) = r"
  by (simp add: Reminder.defs)

lemma getActiveReminders_truncate:
  "map Reminder.truncate (getActiveReminders s)
     = sort_key r_scheduledFor
         (filter (\<lambda>r. \<not> truthy (r_completed r)) (Map_values (reminders s)))"
  by (simp add: getActiveReminders_eq reminderView_def truncate_extend_Reminder comp_def)

text \<open>
  Claim C7, as amended. The reminders that \<open>getActiveReminders\<close> returns (each with its
  project name added) are, with multiplicity, exactly the stored reminders whose \<open>completed\<close>
  field is not \<open>true\<close>, that is \<open>false\<close>, \<open>null\<close> or absent; the result is in ascending order
  of \<open>scheduledFor\<close>; and no returned reminder has \<open>completed = true\<close>.
\<close>

theorem getActiveReminders_pending_sorted:
  "mset (map Reminder.truncate (getActiveReminders s))
     = mset (filter (\<lambda>r. r_completed r \<noteq> Some True) (Map_values (reminders s)))
   \<and> sorted (map r_scheduledFor (getActiveReminders s))
   \<and> Some True \<notin> r_completed ` set (getActiveReminders s)"
proof (intro conjI)
  show "mset (map Reminder.truncate (getActiveReminders s))
     = mset (filter (\<lambda>r. r_completed r \<noteq> Some True) (Map_values (reminders s)))"
    by (simp add: getActiveReminders_truncate truthy_def)
  show "sorted (map r_scheduledFor (getActiveReminders s))"
    unfolding getActiveReminders_def by (rule sorted_sort_key)
  show "Some True \<notin> r_completed ` set (getActiveReminders s)"
    by (auto simp: getActiveReminders_def truthy_def Reminder.defs Let_def)
qed

text \<open>
  Claim C7 as stated fails: \<open>createReminder\<close> applies no default, so a reminder created
  without a \<open>completed\<close> key is stored without one. After the sample session the store holds
  \<open>rem-1\<close>, completed, and \<open>rem-2\<close>, created without the key; no stored reminder has
  \<open>completed = false\<close>, yet \<open>getActiveReminders\<close> returns \<open>rem-2\<close>, whose field is absent.
\<close>

theorem getActiveReminders_absent_completed_counterexample:
  "map r_id (Map_values (reminders (run sampleOperations sampleStorage))) = [''rem-1'', ''rem-2'']
   \<and> map r_completed (Map_values (reminders (run sampleOperations sampleStorage)))
       = [Some True, None]
   \<and> map r_id (getActiveReminders (run sampleOperations sampleStorage)) = [''rem-2'']
   \<and> map r_completed (getActiveReminders (run sampleOperations sampleStorage)) = [None]"
  by (simp add: getActiveReminders_def sample_defs session_defs method_defs map_defs
        truthy_def view_defs Let_def)

subsection \<open>Stats\<close>

lemma length_filter_values_card:
  assumes "distinct (map fst m)"
  shows "length (filter P (map snd m)) = card {k. \<exists>v. map_of m k = Some v \<and> P v}"
  using assms
proof (induction m)
  case Nil
  then show ?case by simp
next
  case (Cons a m)
  obtain k v where a: "a = (k, v)" by (cases a)
  let ?A = "{k'. \<exists>v'. map_of m k' = Some v' \<and> P v'}"
  from Cons.prems a have notin: "k \<notin> fst ` set m" and dist: "distinct (map fst m)"
    by auto
  have fin: "finite ?A"
  proof (rule finite_subset)
    show "?A \<subseteq> fst ` set m" by (auto dest: map_of_SomeD intro: rev_image_eqI)
    show "finite (fst ` set m)" by simp
  qed
  have kA: "k \<notin> ?A"
    using notin by (auto dest: map_of_SomeD intro: rev_image_eqI)
  have step: "{k'. \<exists>v'. map_of (a # m) k' = Some v' \<and> P v'}
      = (if P v then insert k ?A else ?A)"
    using kA by (auto simp: a)
  have "card (if P v then insert k ?A else ?A) = (if P v then 1 else 0) + card ?A"
    using fin kA by simp
  moreover have "length (filter P (map snd (a # m)))
      = (if P v then 1 else 0) + length (filter P (map snd m))"
    by (simp add: a)
  ultimately show ?case
    unfolding step using Cons.IH [OF dist] by simp
qed

lemma length_values_card:
  assumes "distinct (map fst m)"
  shows "length (Map_values m) = card {k. Map_has m k}"
  using length_filter_values_card [OF assms, of "\<lambda>_. True"]
  by (simp add: Map_values_def Map_has_def)

lemma keys_distinct_emptyStorage: "keys_distinct emptyStorage"
  by (simp add: keys_distinct_def emptyStorage_def)

lemma keys_distinct_initializeData: "keys_distinct (initializeData clock)"
  by (simp add: keys_distinct_def initializeData_def emptyStorage_def Map_set_def Let_def)

lemma keys_distinct_apply_operation:
  "keys_distinct s \<Longrightarrow> keys_distinct (apply_operation x s)"
  by (cases x)
    (auto simp: keys_distinct_def method_defs Map_set_def Map_delete_def Let_def
       distinct_update distinct_delete split: option.splits)

lemma keys_distinct_run: "keys_distinct s \<Longrightarrow> keys_distinct (run xs s)"
  by (induction xs arbitrary: s) (auto simp: keys_distinct_apply_operation)

lemma stats_apply_creation:
  assumes "uuid_fresh x s" and "creation x"
  shows "activeProjects (getProjectStats (apply_operation x s))
           = activeProjects (getProjectStats s) + createdProjects (Some ''active'') [x]
         \<and> photosCount (getProjectStats (apply_operation x s))
           = photosCount (getProjectStats s) + createdPhotos [x]"
  using assms
  by (cases x)
    (auto simp: getProjectStats_def method_defs Let_def Map_values_set_fresh)

lemma created_Cons:
  "createdProjects st (x # xs) = createdProjects st [x] + createdProjects st xs
   \<and> createdPhotos (x # xs) = createdPhotos [x] + createdPhotos xs"
  by (cases x) simp_all

lemma stats_run_creations:
  "uuids_fresh xs s \<Longrightarrow> list_all creation xs \<Longrightarrow>
     activeProjects (getProjectStats (run xs s))
       = activeProjects (getProjectStats s) + createdProjects (Some ''active'') xs
     \<and> photosCount (getProjectStats (run xs s))
       = photosCount (getProjectStats s) + createdPhotos xs"
proof (induction xs arbitrary: s)
  case Nil
  then show ?case by simp
next
  case (Cons x xs)
  from Cons.prems have f: "uuid_fresh x s" "creation x"
    and r: "uuids_fresh xs (apply_operation x s)" "list_all creation xs"
    by simp_all
  show ?case
    using Cons.IH [OF r] stats_apply_creation [OF f]
      created_Cons [of "Some ''active''" x xs]
    by simp
qed

lemma stats_initializeData:
  "activeProjects (getProjectStats (initializeData clock)) = 1
   \<and> photosCount (getProjectStats (initializeData clock)) = 0"
  by (simp add: getProjectStats_def initializeData_def emptyStorage_def map_defs Let_def)

text \<open>
  Claim C8, as amended. In every store whose maps have pairwise different keys, which every
  store reachable from the constructor is, \<open>getProjectStats\<close> returns the number of project
  identifiers whose project has status \<open>active\<close>, the number of stored photos, the number of
  reminders whose \<open>completed\<close> field is not \<open>true\<close> (\<open>false\<close>, \<open>null\<close> or absent) and the
  number of stored documents. A session that only creates, with new identifiers, and creates
  two active projects, one complete project and five photos raises \<open>activeProjects\<close> by 2
  and \<open>photosCount\<close> by 5; run on the store as the constructor leaves it, which already
  holds one active project and no photo, it ends with \<open>activeProjects = 3\<close> and
  \<open>photosCount = 5\<close>.
\<close>

theorem getProjectStats_counts:
  "keys_distinct (run ys (initializeData clock))
   \<and> (keys_distinct s \<longrightarrow>
        activeProjects (getProjectStats s)
          = card {i. \<exists>p. getProject s i = Some p \<and> p_status p = Some ''active''}
      \<and> photosCount (getProjectStats s) = card {i. Map_has (photos s) i}
      \<and> pendingInspections (getProjectStats s)
          = card {i. \<exists>r. Map_get (reminders s) i = Some r \<and> r_completed r \<noteq> Some True}
      \<and> documentsCount (getProjectStats s) = card {i. Map_has (documents s) i})
   \<and> (uuids_fresh xs s' \<and> list_all creation xs
      \<and> createdProjects (Some ''active'') xs = 2 \<and> createdProjects (Some ''complete'') xs = 1
      \<and> createdPhotos xs = 5 \<longrightarrow>
        activeProjects (getProjectStats (run xs s')) = activeProjects (getProjectStats s') + 2
      \<and> photosCount (getProjectStats (run xs s')) = photosCount (getProjectStats s') + 5)
   \<and> (uuids_fresh zs (initializeData clock') \<and> list_all creation zs
      \<and> createdProjects (Some ''active'') zs = 2 \<and> createdProjects (Some ''complete'') zs = 1
      \<and> createdPhotos zs = 5 \<longrightarrow>
        activeProjects (getProjectStats (run zs (initializeData clock'))) = 3
      \<and> photosCount (getProjectStats (run zs (initializeData clock'))) = 5)"
proof (intro conjI impI)
  show "keys_distinct (run ys (initializeData clock))"
    by (simp add: keys_distinct_run keys_distinct_initializeData)
next
  assume k: "keys_distinct s"
  then have d: "distinct (map fst (projects s))" "distinct (map fst (photos s))"
    "distinct (map fst (reminders s))" "distinct (map fst (documents s))"
    by (simp_all add: keys_distinct_def)
  show "activeProjects (getProjectStats s)
          = card {i. \<exists>p. getProject s i = Some p \<and> p_status p = Some ''active''}"
    using length_filter_values_card [OF d(1), of "\<lambda>p. p_status p = Some ''active''"]
    by (simp add: getProjectStats_def getProject_def Map_get_def Map_values_def)
  show "photosCount (getProjectStats s) = card {i. Map_has (photos s) i}"
    using length_values_card [OF d(2)] by (simp add: getProjectStats_def)
  show "pendingInspections (getProjectStats s)
          = card {i. \<exists>r. Map_get (reminders s) i = Some r \<and> r_completed r \<noteq> Some True}"
    using length_filter_values_card [OF d(3), of "\<lambda>r. r_completed r \<noteq> Some True"]
    by (simp add: getProjectStats_def Map_get_def Map_values_def truthy_def)
  show "documentsCount (getProjectStats s) = card {i. Map_has (documents s) i}"
    using length_values_card [OF d(4)] by (simp add: getProjectStats_def)
next
  assume h: "uuids_fresh xs s' \<and> list_all creation xs
      \<and> createdProjects (Some ''active'') xs = 2 \<and> createdProjects (Some ''complete'') xs = 1
      \<and> createdPhotos xs = 5"
  then have "uuids_fresh xs s'" "list_all creation xs" by simp_all
  from stats_run_creations [OF this] h
  show "activeProjects (getProjectStats (run xs s')) = activeProjects (getProjectStats s') + 2"
    and "photosCount (getProjectStats (run xs s')) = photosCount (getProjectStats s') + 5"
    by simp_all
next
  assume h: "uuids_fresh zs (initializeData clock') \<and> list_all creation zs
      \<and> createdProjects (Some ''active'') zs = 2 \<and> createdProjects (Some ''complete'') zs = 1
      \<and> createdPhotos zs = 5"
  then have "uuids_fresh zs (initializeData clock')" "list_all creation zs" by simp_all
  from stats_run_creations [OF this] h stats_initializeData [of clock']
  show "activeProjects (getProjectStats (run zs (initializeData clock'))) = 3"
    and "photosCount (getProjectStats (run zs (initializeData clock'))) = 5"
    by simp_all
qed

theorem getProjectStats_counts_witness:
  "keys_distinct sampleStorage
   \<and> getProjectStats sampleStorage
       = \<lparr> activeProjects = 1, photosCount = 0, pendingInspections = 1, documentsCount = 0 \<rparr>
   \<and> card {i. \<exists>p. getProject sampleStorage i = Some p \<and> p_status p = Some ''active''} = 1
   \<and> uuids_fresh statsOperations clearedStorage \<and> list_all creation statsOperations
   \<and> createdProjects (Some ''active'') statsOperations = 2
   \<and> createdProjects (Some ''complete'') statsOperations = 1
   \<and> createdPhotos statsOperations = 5
   \<and> activeProjects (getProjectStats clearedStorage) = 0
   \<and> photosCount (getProjectStats clearedStorage) = 0
   \<and> activeProjects (getProjectStats (run statsOperations clearedStorage)) = 2
   \<and> photosCount (getProjectStats (run statsOperations clearedStorage)) = 5
   \<and> uuids_fresh statsOperations (initializeData sampleClock)
   \<and> activeProjects (getProjectStats (run statsOperations (initializeData sampleClock))) = 3
   \<and> photosCount (getProjectStats (run statsOperations (initializeData sampleClock))) = 5"
proof -
  have k: "keys_distinct sampleStorage"
    by (simp add: sampleStorage_def keys_distinct_initializeData)
  have v: "getProjectStats sampleStorage
       = \<lparr> activeProjects = 1, photosCount = 0, pendingInspections = 1, documentsCount = 0 \<rparr>"
    by (simp add: getProjectStats_def sample_defs map_defs truthy_def Let_def)
  have c: "activeProjects (getProjectStats clearedStorage) = 0
      \<and> photosCount (getProjectStats clearedStorage) = 0"
    by (simp add: getProjectStats_def clearedStorage_def sample_defs method_defs map_defs Let_def)
  have f: "uuids_fresh statsOperations clearedStorage"
    by (simp add: statsOperations_def clearedStorage_def sample_defs method_defs map_defs Let_def)
  have g: "uuids_fresh statsOperations (initializeData sampleClock)"
    by (simp add: statsOperations_def initializeData_def emptyStorage_def sampleClock_def
          method_defs map_defs Let_def)
  have n: "list_all creation statsOperations
      \<and> createdProjects (Some ''active'') statsOperations = 2
      \<and> createdProjects (Some ''complete'') statsOperations = 1
      \<and> createdPhotos statsOperations = 5"
    by (simp add: statsOperations_def)
  note counts = getProjectStats_counts
      [of "[]" sampleClock sampleStorage statsOperations clearedStorage statsOperations
        sampleClock]
  from counts k
  have "activeProjects (getProjectStats sampleStorage)
      = card {i. \<exists>p. getProject sampleStorage i = Some p \<and> p_status p = Some ''active''}"
    by blast
  then have a: "card {i. \<exists>p. getProject sampleStorage i = Some p \<and> p_status p = Some ''active''}
      = 1"
    by (simp add: v)
  from counts f n
  have "activeProjects (getProjectStats (run statsOperations clearedStorage))
        = activeProjects (getProjectStats clearedStorage) + 2
      \<and> photosCount (getProjectStats (run statsOperations clearedStorage))
        = photosCount (getProjectStats clearedStorage) + 5"
    by blast
  with c have s: "activeProjects (getProjectStats (run statsOperations clearedStorage)) = 2
      \<and> photosCount (getProjectStats (run statsOperations clearedStorage)) = 5"
    by simp
  from counts g n
  have t: "activeProjects (getProjectStats (run statsOperations (initializeData sampleClock))) = 3
      \<and> photosCount (getProjectStats (run statsOperations (initializeData sampleClock))) = 5"
    by blast
  show ?thesis
    using k v a f n c s g t by blast
qed

text \<open>
  Claim C8 as stated fails in two places. The store the constructor leaves already holds an
  active project, so after the session that creates three projects, two active and one
  complete, and five photos, \<open>activeProjects\<close> is 3, not 2. And after the sample session the
  two stored reminders have \<open>completed\<close> equal to \<open>true\<close> and absent, none equal to \<open>false\<close>,
  yet \<open>pendingInspections\<close> is 1.
\<close>

theorem getProjectStats_seeded_counterexample:
  "createdProjects (Some ''active'') statsOperations = 2
   \<and> createdProjects (Some ''complete'') statsOperations = 1
   \<and> createdPhotos statsOperations = 5
   \<and> uuids_fresh statsOperations sampleStorage
   \<and> activeProjects (getProjectStats (run statsOperations sampleStorage)) = 3
   \<and> photosCount (getProjectStats (run statsOperations sampleStorage)) = 5
   \<and> map r_completed (Map_values (reminders (run sampleOperations sampleStorage)))
       = [Some True, None]
   \<and> pendingInspections (getProjectStats (run sampleOperations sampleStorage)) = 1"
  by (simp add: getProjectStats_def statsOperations_def sample_defs session_defs method_defs
        map_defs truthy_def Let_def)

subsection \<open>Photos and documents of a project\<close>

text \<open>
  Claim C9. For every project identifier, \<open>getProjectPhotos\<close> returns, with multiplicity,
  exactly the stored photos with that \<open>projectId\<close>, each \<open>takenAt\<close> at least as large as
  those after it (newest first); \<open>getProjectDocuments\<close> does the same for documents
  and \<open>uploadedAt\<close>.
\<close>

theorem getProjectPhotos_getProjectDocuments_sorted:
  "mset (getProjectPhotos s projectId)
     = mset (filter (\<lambda>photo. ph_projectId photo = projectId) (Map_values (photos s)))
   \<and> sorted_wrt (\<lambda>a b. ph_takenAt b \<le> ph_takenAt a) (getProjectPhotos s projectId)
   \<and> mset (getProjectDocuments s projectId)
     = mset (filter (\<lambda>doc. d_projectId doc = projectId) (Map_values (documents s)))
   \<and> sorted_wrt (\<lambda>a b. d_uploadedAt b \<le> d_uploadedAt a) (getProjectDocuments s projectId)"
  by (simp add: getProjectPhotos_def getProjectDocuments_def sorted_desc_sort_key)

lemma getProjectPhotos_example:
  "map ph_id (getProjectPhotos populatedStorage ''proj-1'') = [''photo-2'', ''photo-1'']
   \<and> map d_id (getProjectDocuments populatedStorage ''proj-1'') = [''doc-1'']
   \<and> getProjectPhotos populatedStorage ''proj-2'' = []"
  by (simp add: getProjectPhotos_def getProjectDocuments_def sample_defs session_defs
        method_defs map_defs Let_def)

subsection \<open>Projects whose name is the empty string\<close>

lemma getTestResults_eq:
  "getTestResults s = map (testResultView s) (Map_values (testResults s))"
  by (simp add: getTestResults_def testResultView_def [abs_def] Let_def)

lemma getCalendarEvents_eq:
  "getCalendarEvents getMonth getFullYear s month year
     = map (calendarEventView s)
         (filter (inMonth getMonth getFullYear month year) (Map_values (calendarEvents s)))"
proof (cases month)
  case None
  then show ?thesis
    by (simp add: getCalendarEvents_def calendarEventView_def [abs_def] inMonth_def [abs_def]
          Let_def)
next
  case (Some m)
  then show ?thesis
    by (cases year)
      (simp_all add: getCalendarEvents_def calendarEventView_def [abs_def] inMonth_def [abs_def]
         Let_def)
qed

lemma unnamed_project:
  "getProject s i = Some p \<Longrightarrow> p_name p = [] \<Longrightarrow>
     name_or (map_option p_name (Map_get (projects s) i)) d = d"
  by (simp add: getProject_def name_or_def)

text \<open>
  Claim C10. A stored test result whose project exists and has the empty string as its name
  has an entry in \<open>getTestResults\<close>, and every entry for it reports \<open>"Unknown Project"\<close>. The
  same holds for a stored reminder that is not completed and \<open>getActiveReminders\<close>, and for
  a stored calendar event that passes the month and year filter and \<open>getCalendarEvents\<close>.
\<close>

theorem empty_project_name_reported_unknown:
  "(r \<in> set (Map_values (testResults s)) \<and> getProject s (tr_projectId r) = Some p
      \<and> p_name p = [] \<longrightarrow>
      r \<in> TestResult.truncate ` set (getTestResults s)
      \<and> (\<forall>v \<in> set (getTestResults s).
            TestResult.truncate v = r \<longrightarrow> trv_projectName v = ''Unknown Project''))
   \<and> (r' \<in> set (Map_values (reminders s')) \<and> r_completed r' \<noteq> Some True
      \<and> getProject s' (r_projectId r') = Some p' \<and> p_name p' = [] \<longrightarrow>
      r' \<in> Reminder.truncate ` set (getActiveReminders s')
      \<and> (\<forall>v \<in> set (getActiveReminders s').
            Reminder.truncate v = r' \<longrightarrow> rv_projectName v = ''Unknown Project''))
   \<and> (e \<in> set (Map_values (calendarEvents s''))
      \<and> inMonth getMonth getFullYear month year e
      \<and> getProject s'' (ce_projectId e) = Some p'' \<and> p_name p'' = [] \<longrightarrow>
      e \<in> CalendarEvent.truncate ` set (getCalendarEvents getMonth getFullYear s'' month year)
      \<and> (\<forall>v \<in> set (getCalendarEvents getMonth getFullYear s'' month year).
            CalendarEvent.truncate v = e \<longrightarrow> cev_projectName v = ''Unknown Project''))"
proof (intro conjI impI ballI)
  assume h: "r \<in> set (Map_values (testResults s)) \<and> getProject s (tr_projectId r) = Some p
      \<and> p_name p = []"
  then show "r \<in> TestResult.truncate ` set (getTestResults s)"
    using getTestResults_truncate [of s] by (metis set_map)
  fix v assume v: "v \<in> set (getTestResults s)" and t: "TestResult.truncate v = r"
  from v obtain r0 where "v = testResultView s r0"
    by (auto simp: getTestResults_eq)
  with t have "v = testResultView s r"
    by (simp add: testResultView_def truncate_extend_TestResult)
  then show "trv_projectName v = ''Unknown Project''"
    using h by (simp add: testResultView_def view_defs unnamed_project)
next
  assume h: "r' \<in> set (Map_values (reminders s')) \<and> r_completed r' \<noteq> Some True
      \<and> getProject s' (r_projectId r') = Some p' \<and> p_name p' = []"
  have "set (map Reminder.truncate (getActiveReminders s'))
      = {x \<in> set (Map_values (reminders s')). \<not> truthy (r_completed x)}"
    unfolding getActiveReminders_truncate by simp
  with h show "r' \<in> Reminder.truncate ` set (getActiveReminders s')"
    by (auto simp: truthy_def)
  fix v assume v: "v \<in> set (getActiveReminders s')" and t: "Reminder.truncate v = r'"
  from v obtain r0 where "v = reminderView s' r0"
    by (auto simp: getActiveReminders_eq)
  with t have "v = reminderView s' r'"
    by (simp add: reminderView_def truncate_extend_Reminder)
  then show "rv_projectName v = ''Unknown Project''"
    using h by (simp add: reminderView_def view_defs unnamed_project)
next
  assume h: "e \<in> set (Map_values (calendarEvents s''))
      \<and> inMonth getMonth getFullYear month year e
      \<and> getProject s'' (ce_projectId e) = Some p'' \<and> p_name p'' = []"
  have "map CalendarEvent.truncate (getCalendarEvents getMonth getFullYear s'' month year)
      = filter (inMonth getMonth getFullYear month year) (Map_values (calendarEvents s''))"
    by (simp add: getCalendarEvents_eq calendarEventView_def truncate_extend_CalendarEvent comp_def)
  then have "set (map CalendarEvent.truncate (getCalendarEvents getMonth getFullYear s'' month year))
      = {x \<in> set (Map_values (calendarEvents s'')). inMonth getMonth getFullYear month year x}"
    by simp
  with h show "e \<in> CalendarEvent.truncate ` set (getCalendarEvents getMonth getFullYear s'' month year)"
    by auto
  fix v assume v: "v \<in> set (getCalendarEvents getMonth getFullYear s'' month year)"
    and t: "CalendarEvent.truncate v = e"
  from v obtain e0 where "v = calendarEventView s'' e0"
    by (auto simp: getCalendarEvents_eq)
  with t have "v = calendarEventView s'' e"
    by (simp add: calendarEventView_def truncate_extend_CalendarEvent)
  then show "cev_projectName v = ''Unknown Project''"
    using h by (simp add: calendarEventView_def view_defs unnamed_project)
qed
lemma utc_example: "utcMonth 1730800000000 = 10 \<and> utcFullYear 1730800000000 = 2024"
  by code_simp

lemma unnamedStorage_eval:
  "getProject unnamedStorage ''proj-0'' = Some unnamedProject"
  "Map_values (testResults unnamedStorage) = [unnamedResult]"
  "Map_values (reminders unnamedStorage) = [snd (hd (reminders sampleStorage)), unnamedReminder]"
  "Map_values (calendarEvents unnamedStorage) = [unnamedEvent]"
  by (simp_all add: unnamedStorage_def unnamedOperations_def sample_defs method_defs map_defs
        unnamedProject_def unnamedResult_def unnamedReminder_def unnamedEvent_def Let_def)

lemma unnamed_fields:
  "p_name unnamedProject = []"
  "tr_projectId unnamedResult = ''proj-0''"
  "r_projectId unnamedReminder = ''proj-0''"
  "r_completed unnamedReminder = None"
  "ce_projectId unnamedEvent = ''proj-0''"
  "ce_date unnamedEvent = 1730800000000"
  by (simp_all add: unnamedProject_def unnamedResult_def unnamedReminder_def unnamedEvent_def)

theorem empty_project_name_reported_unknown_witness:
  "unnamedResult \<in> set (Map_values (testResults unnamedStorage))
   \<and> getProject unnamedStorage (tr_projectId unnamedResult) = Some unnamedProject
   \<and> p_name unnamedProject = []
   \<and> unnamedResult \<in> TestResult.truncate ` set (getTestResults unnamedStorage)
   \<and> map trv_projectName (getTestResults unnamedStorage) = [''Unknown Project'']
   \<and> unnamedReminder \<in> set (Map_values (reminders unnamedStorage))
   \<and> r_completed unnamedReminder \<noteq> Some True
   \<and> getProject unnamedStorage (r_projectId unnamedReminder) = Some unnamedProject
   \<and> unnamedReminder \<in> Reminder.truncate ` set (getActiveReminders unnamedStorage)
   \<and> map rv_projectName (getActiveReminders unnamedStorage)
       = [''Unknown Project'', ''Downtown Office Complex'']
   \<and> unnamedEvent \<in> set (Map_values (calendarEvents unnamedStorage))
   \<and> inMonth utcMonth utcFullYear (Some 10) (Some 2024) unnamedEvent
   \<and> getProject unnamedStorage (ce_projectId unnamedEvent) = Some unnamedProject
   \<and> unnamedEvent \<in> CalendarEvent.truncate `
         set (getCalendarEvents utcMonth utcFullYear unnamedStorage (Some 10) (Some 2024))
   \<and> map cev_projectName
         (getCalendarEvents utcMonth utcFullYear unnamedStorage (Some 10) (Some 2024))
       = [''Unknown Project'']"
proof -
  have a: "unnamedResult \<in> set (Map_values (testResults unnamedStorage))
      \<and> getProject unnamedStorage (tr_projectId unnamedResult) = Some unnamedProject
      \<and> p_name unnamedProject = []"
    by (simp add: unnamedStorage_eval unnamed_fields)
  have b: "unnamedReminder \<in> set (Map_values (reminders unnamedStorage))
      \<and> r_completed unnamedReminder \<noteq> Some True
      \<and> getProject unnamedStorage (r_projectId unnamedReminder) = Some unnamedProject
      \<and> p_name unnamedProject = []"
    by (simp add: unnamedStorage_eval unnamed_fields)
  have c: "unnamedEvent \<in> set (Map_values (calendarEvents unnamedStorage))
      \<and> inMonth utcMonth utcFullYear (Some 10) (Some 2024) unnamedEvent
      \<and> getProject unnamedStorage (ce_projectId unnamedEvent) = Some unnamedProject
      \<and> p_name unnamedProject = []"
    by (simp add: unnamedStorage_eval inMonth_def unnamed_fields utc_example)
  have t: "map trv_projectName (getTestResults unnamedStorage) = [''Unknown Project'']"
    by (simp add: getTestResults_def unnamedStorage_def unnamedOperations_def sample_defs
          method_defs map_defs name_or_def view_defs Let_def)
  have r: "map rv_projectName (getActiveReminders unnamedStorage)
      = [''Unknown Project'', ''Downtown Office Complex'']"
    by (simp add: getActiveReminders_def unnamedStorage_def unnamedOperations_def sample_defs
          method_defs map_defs truthy_def name_or_def view_defs Let_def)
  have e: "map cev_projectName
        (getCalendarEvents utcMonth utcFullYear unnamedStorage (Some 10) (Some 2024))
      = [''Unknown Project'']"
    by (simp add: getCalendarEvents_def unnamedStorage_def unnamedOperations_def sample_defs
          method_defs map_defs name_or_def view_defs utc_example Let_def)
  show ?thesis
    using empty_project_name_reported_unknown
      [of unnamedResult unnamedStorage unnamedProject
          unnamedReminder unnamedStorage unnamedProject
          unnamedEvent unnamedStorage utcMonth utcFullYear "Some 10" "Some 2024" unnamedProject]
      a b c t r e
    by blast
qed

end
